theory Spec2Isabelle
  imports Main "HOL-Library.Sublist"
begin

section \<open>Python values, exceptions and built-in string operations\<close>

text \<open>
  The launcher \<^verbatim>\<open>dazel.py\<close> reads a layered configuration, renders command-line
  fragments from it, starts a docker-compose stack and forwards a command into the build
  container. Configuration values come from a \<^verbatim>\<open>.dazelrc\<close> script and from the
  process environment, so they are dynamically typed: the model keeps the shapes a
  configuration can hold (\<^verbatim>\<open>None\<close>, booleans, integers, strings and lists).
  A \<open>string\<close> is a Python \<^verbatim>\<open>str\<close> whose code points are below 256, one
  \<open>char\<close> for each code point.
\<close>

datatype pyval = VNone | VBool bool | VInt int | VStr string | VList "pyval list"

text \<open>
  The exceptions the program can raise: the \<^verbatim>\<open>RuntimeError\<close> of the two
  normalisers with its message, the \<^verbatim>\<open>TypeError\<close> that \<^verbatim>\<open>str.join\<close> and
  \<^verbatim>\<open>os.path.join\<close> raise on an operand that is not a string, the
  \<^verbatim>\<open>AttributeError\<close> raised by evaluating \<^verbatim>\<open>collections.Iterable\<close> on an
  interpreter that no longer has this name, and whatever reading or executing
  \<^verbatim>\<open>.dazelrc\<close> raises.
\<close>

datatype pyerror = RuntimeError string | TypeError | AttributeError | DazelrcError

text \<open>Truth value testing, as \<^verbatim>\<open>if not ports\<close> applies it.\<close>

fun truthy :: "pyval \<Rightarrow> bool" where
  "truthy VNone = False"
| "truthy (VBool b) = b"
| "truthy (VInt i) = (i \<noteq> 0)"
| "truthy (VStr s) = (s \<noteq> [])"
| "truthy (VList xs) = (xs \<noteq> [])"

text \<open>
  \<^verbatim>\<open>isinstance(v, collections.Iterable)\<close> on an interpreter where the name
  \<^verbatim>\<open>collections.Iterable\<close> exists: of the modelled values, strings and lists are
  iterable. The name was removed in Python 3.10; whether the interpreter has it is a
  parameter of the two normalisers below.
\<close>

fun is_iterable :: "pyval \<Rightarrow> bool" where
  "is_iterable (VStr s) = True"
| "is_iterable (VList xs) = True"
| "is_iterable v = False"

text \<open>
  \<^verbatim>\<open>str.isspace\<close> on one code point below 256: the ASCII white space
  \<^verbatim>\<open>\t \n \v \f \r\<close>, the separators \<^verbatim>\<open>0x1c .. 0x1f\<close>, the blank,
  \<^verbatim>\<open>0x85\<close> and \<^verbatim>\<open>0xa0\<close>.
\<close>

definition is_space :: "char \<Rightarrow> bool" where
  "is_space c =
     (c \<in> set [CHR 0x09, CHR 0x0A, CHR 0x0B, CHR 0x0C, CHR 0x0D,
               CHR 0x1C, CHR 0x1D, CHR 0x1E, CHR 0x1F, CHR 0x20, CHR 0x85, CHR 0xA0])"

text \<open>\<^verbatim>\<open>s.strip()\<close>: white space removed at both ends.\<close>

definition str_strip :: "string \<Rightarrow> string" where
  "str_strip s = rev (dropWhile is_space (rev (dropWhile is_space s)))"

text \<open>
  \<^verbatim>\<open>s.split(c)\<close> for a one-character separator: the pieces between the separators,
  empty pieces included; the empty string gives one empty piece.
\<close>

fun str_split :: "char \<Rightarrow> string \<Rightarrow> string list" where
  "str_split c [] = [[]]"
| "str_split c (x # xs) =
     (if x = c then [] # str_split c xs
      else (case str_split c xs of [] \<Rightarrow> [[x]] | p # ps \<Rightarrow> (x # p) # ps))"

text \<open>\<^verbatim>\<open>sep.join(items)\<close> on strings.\<close>

fun str_join :: "string \<Rightarrow> string list \<Rightarrow> string" where
  "str_join sep [] = []"
| "str_join sep [x] = x"
| "str_join sep (x # y # ys) = x @ sep @ str_join sep (y # ys)"

text \<open>
  \<^verbatim>\<open>str.join\<close> accepts only strings: \<open>strs_of\<close> gives the items of a list as
  strings, or the \<^verbatim>\<open>TypeError\<close> raised at the first item that is none, and
  \<open>py_join\<close> is \<^verbatim>\<open>sep.join(v)\<close> on a value: a list is joined item by item,
  a string character by character, and nothing else can be iterated.
\<close>

fun strs_of :: "pyval list \<Rightarrow> pyerror + string list" where
  "strs_of [] = Inr []"
| "strs_of (VStr s # vs) = (case strs_of vs of Inl e \<Rightarrow> Inl e | Inr ss \<Rightarrow> Inr (s # ss))"
| "strs_of (v # vs) = Inl TypeError"

fun py_join :: "string \<Rightarrow> pyval \<Rightarrow> pyerror + string" where
  "py_join sep (VList xs) =
     (case strs_of xs of Inl e \<Rightarrow> Inl e | Inr ss \<Rightarrow> Inr (str_join sep ss))"
| "py_join sep (VStr s) = Inr (str_join sep (map (\<lambda>c. [c]) s))"
| "py_join sep v = Inl TypeError"

text \<open>Decimal digits of a natural number and \<^verbatim>\<open>str\<close> of an integer.\<close>

function str_nat :: "nat \<Rightarrow> string" where
  "str_nat n =
     (if n < 10 then [''0123456789'' ! n]
      else str_nat (n div 10) @ [''0123456789'' ! (n mod 10)])"
  by pat_completeness auto
termination
  by (relation "measure id") auto

declare str_nat.simps [simp del]

definition str_int :: "int \<Rightarrow> string" where
  "str_int i = (if i < 0 then CHR ''-'' # str_nat (nat (- i)) else str_nat (nat i))"

text \<open>
  \<^verbatim>\<open>repr\<close> of a string: single quotes unless the string holds a single quote and no
  double quote; the quote and the backslash escaped, \<^verbatim>\<open>\t \n \r\<close> by name, every
  other code point that is not printable as \<^verbatim>\<open>\xhh\<close>.
\<close>

definition hex2 :: "nat \<Rightarrow> string" where
  "hex2 n = [''0123456789abcdef'' ! (n div 16 mod 16), ''0123456789abcdef'' ! (n mod 16)]"

definition is_printable :: "char \<Rightarrow> bool" where
  "is_printable c =
     (let n = (of_char c :: nat)
      in (32 \<le> n \<and> n < 127) \<or> (161 \<le> n \<and> n \<noteq> 173))"

definition repr_char :: "char \<Rightarrow> char \<Rightarrow> string" where
  "repr_char quote c =
     (if c = quote \<or> c = CHR 0x5C then [CHR 0x5C, c]
      else if c = CHR 0x09 then [CHR 0x5C, CHR ''t'']
      else if c = CHR 0x0A then [CHR 0x5C, CHR ''n'']
      else if c = CHR 0x0D then [CHR 0x5C, CHR ''r'']
      else if is_printable c then [c]
      else [CHR 0x5C, CHR ''x''] @ hex2 (of_char c))"

definition repr_str :: "string \<Rightarrow> string" where
  "repr_str s =
     (let quote = (if CHR 0x27 \<in> set s \<and> CHR 0x22 \<notin> set s then CHR 0x22 else CHR 0x27)
      in quote # concat (map (repr_char quote) s) @ [quote])"

text \<open>
  \<^verbatim>\<open>repr(v)\<close> and \<^verbatim>\<open>str(v)\<close>, which is what \<^verbatim>\<open>"%s" % v\<close> inserts for the
  modelled values.
\<close>

fun py_repr :: "pyval \<Rightarrow> string" where
  "py_repr VNone = ''None''"
| "py_repr (VBool b) = (if b then ''True'' else ''False'')"
| "py_repr (VInt i) = str_int i"
| "py_repr (VStr s) = repr_str s"
| "py_repr (VList xs) = ''['' @ str_join '', '' (map py_repr xs) @ '']''"

fun py_str :: "pyval \<Rightarrow> string" where
  "py_str (VStr s) = s"
| "py_str v = py_repr v"

section \<open>Paths\<close>

text \<open>
  \<^verbatim>\<open>posixpath.join(a, b)\<close> on strings, \<^verbatim>\<open>os.path.join\<close> on values (a
  \<^verbatim>\<open>TypeError\<close> when an operand is not a string) and \<^verbatim>\<open>posixpath.dirname\<close>:
  everything up to and including the last slash, with the trailing slashes removed unless
  that head consists of slashes only.
\<close>

definition posix_join :: "string \<Rightarrow> string \<Rightarrow> string" where
  "posix_join a b =
     (if prefix ''/'' b then b
      else if a = [] \<or> last a = CHR ''/'' then a @ b
      else a @ ''/'' @ b)"

fun os_path_join :: "pyval \<Rightarrow> pyval \<Rightarrow> pyerror + string" where
  "os_path_join (VStr a) (VStr b) = Inr (posix_join a b)"
| "os_path_join a b = Inl TypeError"

definition dirname :: "string \<Rightarrow> string" where
  "dirname p =
     (let head = rev (dropWhile (\<lambda>c. c \<noteq> CHR ''/'') (rev p))
      in if head \<noteq> [] \<and> head \<noteq> replicate (length head) (CHR ''/'')
         then rev (dropWhile (\<lambda>c. c = CHR ''/'') (rev head))
         else head)"

section \<open>Constants of the program\<close>

definition CODE_MOUNT_POINT :: string where
  "CODE_MOUNT_POINT = ''/code''"

definition CONTAINER_OUTPUT_BASE :: string where
  "CONTAINER_OUTPUT_BASE = ''/root/.cache/bazel/_bazel_dazel''"

definition BUILD_CONTAINER_NAME :: string where
  "BUILD_CONTAINER_NAME = ''dazel_build''"

definition DAZEL_RC_FILENAME :: string where
  "DAZEL_RC_FILENAME = ''.dazelrc''"

definition BAZEL_WORKSPACE_FILE :: string where
  "BAZEL_WORKSPACE_FILE = ''WORKSPACE''"

definition DOCKER_COMPOSE_COMMAND :: string where
  "DOCKER_COMPOSE_COMMAND = ''docker-compose''"

definition DOCKER_COMMAND :: string where
  "DOCKER_COMMAND = ''docker''"

definition DOCKER_COMPOSE_PROJECT_NAME :: string where
  "DOCKER_COMPOSE_PROJECT_NAME = ''dazel''"

definition CONTAINER_OUTPUT_USER_ROOT :: string where
  "CONTAINER_OUTPUT_USER_ROOT = ''/var/bazel/workspace/_bazel_dazel''"

definition CONTAINER_BAZEL_BIN :: string where
  "CONTAINER_BAZEL_BIN = ''/usr/bin/bazel''"

definition DEFAULT_PORTS :: pyval where
  "DEFAULT_PORTS = VList []"

definition DEFAULT_ENV_VARS :: pyval where
  "DEFAULT_ENV_VARS = VList []"

definition DEFAULT_DOCKER_COMPOSE_FILE :: pyval where
  "DEFAULT_DOCKER_COMPOSE_FILE = VStr []"

definition DEFAULT_USER :: pyval where
  "DEFAULT_USER = VStr []"

definition DEFAULT_BAZEL_RC_FILE :: pyval where
  "DEFAULT_BAZEL_RC_FILE = VStr []"

definition DEFAULT_DOCKER_RUN_PRIVILEGED :: pyval where
  "DEFAULT_DOCKER_RUN_PRIVILEGED = VBool False"

section \<open>The surroundings of one run\<close>

text \<open>
  Everything the program reads from outside itself is a field of \<open>world\<close>: the resolved
  working directory, the file system's existence test, the effect of reading and executing
  a configuration script on its namespace, the environment, the terminal, the command-line
  arguments, and what the two ways of running a shell command return
  (\<^verbatim>\<open>subprocess.call\<close> a return code, \<^verbatim>\<open>os.system\<close> a wait status), and
  whether the interpreter's \<^verbatim>\<open>collections\<close> module has the name
  \<^verbatim>\<open>Iterable\<close> (Python before 3.10) or not. The commands
  the program spawns are recorded, in order, in a list that every spawning operation takes
  and returns. What the program writes to its log is left out.
\<close>

type_synonym config = "string \<rightharpoonup> pyval"

record world =
  cwd :: string
  path_exists :: "string \<Rightarrow> bool"
  exec_file :: "string \<Rightarrow> config \<Rightarrow> pyerror + config"
  environ :: "string \<rightharpoonup> string"
  term_columns :: int
  term_lines :: int
  stdout_isatty :: bool
  argv :: "string list"
  subprocess_call :: "string \<Rightarrow> int"
  os_system :: "string \<Rightarrow> int"
  collections_Iterable :: bool

text \<open>\<^verbatim>\<open>os.WEXITSTATUS\<close>: bits 8 to 15 of a wait status.\<close>

definition WEXITSTATUS :: "int \<Rightarrow> int" where
  "WEXITSTATUS status = (status div 256) mod 256"

section \<open>The launch profile\<close>

record DockerInstance =
  workspace_root :: pyval
  docker_compose_file :: pyval
  bazel_rc_file :: pyval
  docker_run_privileged :: pyval
  user :: pyval
  ports :: string
  env_vars :: string

text \<open>
  \<^verbatim>\<open>_add_ports\<close> and \<^verbatim>\<open>_add_env_vars\<close> return the fragment they store in the
  instance, or the exception they raise. A false value leaves the empty fragment. A string
  is split on commas and every piece stripped. For any other true value the test
  \<^verbatim>\<open>isinstance(ports, collections.Iterable)\<close> is evaluated: it raises the
  \<^verbatim>\<open>AttributeError\<close> where the interpreter has no such name, and otherwise a value
  that is not iterable raises the \<^verbatim>\<open>RuntimeError\<close>. What remains is joined, which
  raises when an item is not a string. The first argument says whether the interpreter has
  the name \<^verbatim>\<open>collections.Iterable\<close>.
\<close>

definition add_ports :: "bool \<Rightarrow> pyval \<Rightarrow> pyerror + string" where
  \<open>add_ports has_Iterable ports_arg =
     (if \<not> truthy ports_arg then Inr []
      else case (case ports_arg of
                   VStr s \<Rightarrow> Inr (VList (map (\<lambda>p. VStr (str_strip p)) (str_split (CHR '','') s)))
                 | _ \<Rightarrow>
                     if truthy ports_arg
                     then (if \<not> has_Iterable then Inl AttributeError
                           else if \<not> is_iterable ports_arg
                           then Inl (RuntimeError
                                  (''DAZEL_PORTS must be comma-separated string '' @
                                   ''or python iterable of strings''))
                           else Inr ports_arg)
                     else Inr ports_arg) of
             Inl e \<Rightarrow> Inl e
           | Inr ports_list \<Rightarrow>
               (case py_join ''" -p "'' ports_list of
                  Inl e \<Rightarrow> Inl e
                | Inr joined \<Rightarrow> Inr (''-p "'' @ joined @ ''"'')))\<close>

definition add_env_vars :: "bool \<Rightarrow> pyval \<Rightarrow> pyerror + string" where
  \<open>add_env_vars has_Iterable env_vars_arg =
     (if \<not> truthy env_vars_arg then Inr []
      else case (case env_vars_arg of
                   VStr s \<Rightarrow> Inr (VList (map (\<lambda>p. VStr (str_strip p)) (str_split (CHR '','') s)))
                 | _ \<Rightarrow>
                     if truthy env_vars_arg
                     then (if \<not> has_Iterable then Inl AttributeError
                           else if \<not> is_iterable env_vars_arg
                           then Inl (RuntimeError
                                  (''DAZEL_ENV_VARS must be comma-separated string '' @
                                   ''or python iterable of strings''))
                           else Inr env_vars_arg)
                     else Inr env_vars_arg) of
             Inl e \<Rightarrow> Inl e
           | Inr env_vars_list \<Rightarrow>
               (case py_join ''" -e "'' env_vars_list of
                  Inl e \<Rightarrow> Inl e
                | Inr joined \<Rightarrow> Inr (''-e "'' @ joined @ ''"'')))\<close>

text \<open>The constructor: the ports are normalised before the environment variables.\<close>

definition DockerInstance_init ::
  "bool \<Rightarrow> pyval \<Rightarrow> pyval \<Rightarrow> pyval \<Rightarrow> pyval \<Rightarrow> pyval \<Rightarrow> pyval \<Rightarrow> pyval
     \<Rightarrow> pyerror + DockerInstance" where
  "DockerInstance_init has_Iterable root ports_arg env_vars_arg compose_file rc_file
       privileged usr =
     (case add_ports has_Iterable ports_arg of
        Inl e \<Rightarrow> Inl e
      | Inr p \<Rightarrow>
          (case add_env_vars has_Iterable env_vars_arg of
             Inl e \<Rightarrow> Inl e
           | Inr ev \<Rightarrow>
               Inr \<lparr>workspace_root = root, docker_compose_file = compose_file,
                    bazel_rc_file = rc_file, docker_run_privileged = privileged,
                    user = usr, ports = p, env_vars = ev\<rparr>))"

section \<open>The workspace locator\<close>

text \<open>
  The loop of \<^verbatim>\<open>_find_workspace_directory\<close>, started at the resolved working
  directory: while the directory is neither empty nor the root and holds no
  \<^verbatim>\<open>WORKSPACE\<close> entry, move to its parent. A run that never leaves the loop has the
  value \<open>None\<close>.
\<close>

partial_function (option) find_workspace_loop ::
  "(string \<Rightarrow> bool) \<Rightarrow> string \<Rightarrow> string option" where
  "find_workspace_loop os_path_exists directory =
     (if directory \<noteq> [] \<and> directory \<noteq> ''/'' \<and>
         \<not> os_path_exists (posix_join directory BAZEL_WORKSPACE_FILE)
      then find_workspace_loop os_path_exists (dirname directory)
      else Some directory)"

definition find_workspace_directory :: "world \<Rightarrow> string option" where
  "find_workspace_directory w = find_workspace_loop (path_exists w) (cwd w)"

section \<open>Configuration resolution\<close>

text \<open>\<^verbatim>\<open>config.get(key, default)\<close>.\<close>

definition config_get :: "config \<Rightarrow> string \<Rightarrow> pyval \<Rightarrow> pyval" where
  "config_get config key dflt = (case config key of None \<Rightarrow> dflt | Some v \<Rightarrow> v)"

text \<open>
  \<^verbatim>\<open>_config_from_file\<close>: the namespace seeded with the workspace root, after the
  \<^verbatim>\<open>.dazelrc\<close> of that directory has run in it when the file exists.
\<close>

definition config_from_file :: "world \<Rightarrow> (pyerror + config) option" where
  "config_from_file w =
     (case find_workspace_directory w of
        None \<Rightarrow> None
      | Some directory \<Rightarrow>
          (let dazelrc_path = posix_join directory DAZEL_RC_FILENAME;
               config = [''DAZEL_WORKSPACE_ROOT'' \<mapsto> VStr directory]
           in Some (if path_exists w dazelrc_path then exec_file w dazelrc_path config
                    else Inr config)))"

text \<open>\<^verbatim>\<open>_config_from_environment\<close>: the variables whose name starts with \<^verbatim>\<open>DAZEL_\<close>.\<close>

definition config_from_environment :: "world \<Rightarrow> config" where
  "config_from_environment w =
     (\<lambda>name. if prefix ''DAZEL_'' name then map_option VStr (environ w name) else None)"

text \<open>
  The first two statements of \<^verbatim>\<open>from_config\<close>: the file's configuration updated
  with the environment's.
\<close>

definition merged_config :: "world \<Rightarrow> (pyerror + config) option" where
  "merged_config w =
     (case config_from_file w of
        None \<Rightarrow> None
      | Some (Inl e) \<Rightarrow> Some (Inl e)
      | Some (Inr config) \<Rightarrow> Some (Inr (config ++ config_from_environment w)))"

definition from_config :: "world \<Rightarrow> (pyerror + DockerInstance) option" where
  "from_config w =
     (case merged_config w of
        None \<Rightarrow> None
      | Some (Inl e) \<Rightarrow> Some (Inl e)
      | Some (Inr config) \<Rightarrow>
          Some (DockerInstance_init (collections_Iterable w)
                  (config_get config ''DAZEL_WORKSPACE_ROOT'' VNone)
                  (config_get config ''DAZEL_PORTS'' DEFAULT_PORTS)
                  (config_get config ''DAZEL_ENV_VARS'' DEFAULT_ENV_VARS)
                  (config_get config ''DAZEL_DOCKER_COMPOSE_FILE'' DEFAULT_DOCKER_COMPOSE_FILE)
                  (config_get config ''DAZEL_BAZEL_RC_FILE'' DEFAULT_BAZEL_RC_FILE)
                  (config_get config ''DAZEL_DOCKER_RUN_PRIVILEGED''
                     DEFAULT_DOCKER_RUN_PRIVILEGED)
                  (config_get config ''DAZEL_USER'' DEFAULT_USER)))"

section \<open>Starting the stack\<close>

text \<open>
  Each operation that runs a shell command takes the list of commands spawned so far and
  returns it extended.
\<close>

definition run_silent_command :: "world \<Rightarrow> string \<Rightarrow> string list \<Rightarrow> int \<times> string list" where
  "run_silent_command w command spawned = (subprocess_call w command, spawned @ [command])"

definition command_exists :: "world \<Rightarrow> string \<Rightarrow> string list \<Rightarrow> bool \<times> string list" where
  "command_exists w cmd spawned =
     (let command = ''which '' @ cmd @ '' >/dev/null 2>&1'';
          (rc, spawned') = run_silent_command w command spawned
      in (rc = 0, spawned'))"

definition docker_compose_exists :: "world \<Rightarrow> string list \<Rightarrow> bool \<times> string list" where
  "docker_compose_exists w spawned = command_exists w DOCKER_COMPOSE_COMMAND spawned"

definition start_compose_services ::
  "world \<Rightarrow> DockerInstance \<Rightarrow> string list \<Rightarrow> (pyerror + int) \<times> string list" where
  "start_compose_services w di spawned =
     (if \<not> truthy (docker_compose_file di) then (Inr 0, spawned)
      else case os_path_join (workspace_root di) (docker_compose_file di) of
             Inl e \<Rightarrow> (Inl e, spawned)
           | Inr path \<Rightarrow>
               (let command = ''COMPOSE_PROJECT_NAME='' @ DOCKER_COMPOSE_PROJECT_NAME @
                              '' docker-compose -f '' @ path @ '' up -d --remove-orphans'';
                    (rc, spawned') = run_silent_command w command spawned
                in (Inr rc, spawned')))"

definition start ::
  "world \<Rightarrow> DockerInstance \<Rightarrow> string list \<Rightarrow> (pyerror + int) \<times> string list" where
  "start w di spawned =
     (let (found, spawned') = docker_compose_exists w spawned
      in if \<not> found then (Inr 1, spawned')
         else start_compose_services w di spawned')"

section \<open>Forwarding the command\<close>

text \<open>
  The command line of \<^verbatim>\<open>send_command\<close> is one format string with fourteen
  substitutions. \<open>send_command_flags\<close> is the text up to and including the thirteenth,
  \<open>send_command_line\<close> adds the blank and the last substitution, which holds the
  forwarded arguments.
\<close>

definition send_command_flags :: "world \<Rightarrow> DockerInstance \<Rightarrow> string" where
  "send_command_flags w di =
     DOCKER_COMMAND @ '' exec -i -e COLUMNS='' @ str_int (term_columns w) @
     '' -e LINES='' @ str_int (term_lines w) @
     '' -e TERM='' @ (case environ w ''TERM'' of None \<Rightarrow> [] | Some t \<Rightarrow> t) @
     '' -w /code '' @ env_vars di @
     '' '' @ (if stdout_isatty w then ''-t'' else []) @
     '' '' @ (if truthy (docker_run_privileged di) then ''--privileged'' else []) @
     '' '' @ (if truthy (user di) then ''--user='' @ py_str (user di) else []) @
     '' '' @ BUILD_CONTAINER_NAME @
     '' '' @ CONTAINER_BAZEL_BIN @
     '' '' @ (if truthy (bazel_rc_file di)
              then ''--bazelrc='' @ CODE_MOUNT_POINT @ ''/'' @ py_str (bazel_rc_file di)
              else []) @
     '' '' @ ''--output_user_root='' @ CONTAINER_OUTPUT_USER_ROOT @
     '' '' @ ''--output_base='' @ CONTAINER_OUTPUT_BASE"

definition send_command_line :: "world \<Rightarrow> DockerInstance \<Rightarrow> string list \<Rightarrow> string" where
  \<open>send_command_line w di args =
     send_command_flags w di @ '' '' @ ''"'' @ str_join ''" "'' args @ ''"''\<close>

definition send_command ::
  "world \<Rightarrow> DockerInstance \<Rightarrow> string list \<Rightarrow> string list \<Rightarrow> int \<times> string list" where
  "send_command w di args spawned =
     (let command = send_command_line w di args
      in (WEXITSTATUS (os_system w command), spawned @ [command]))"

section \<open>The entry point\<close>

text \<open>
  \<^verbatim>\<open>main\<close> builds the profile, starts the stack, keeps the result of the start in a
  variable it does not read again, and returns what \<^verbatim>\<open>send_command\<close> returns;
  \<^verbatim>\<open>sys.exit\<close> makes that value the exit code of the process.
\<close>

definition main :: "world \<Rightarrow> ((pyerror + int) \<times> string list) option" where
  "main w =
     (case from_config w of
        None \<Rightarrow> None
      | Some (Inl e) \<Rightarrow> Some (Inl e, [])
      | Some (Inr di) \<Rightarrow>
          (case start w di [] of
             (Inl e, spawned) \<Rightarrow> Some (Inl e, spawned)
           | (Inr rc, spawned) \<Rightarrow>
               (let (status, spawned') = send_command w di (argv w) spawned
                in Some (Inr status, spawned'))))"

section \<open>Sample runs\<close>

text \<open>
  Concrete surroundings on which the results below are evaluated: a project at
  \<^verbatim>\<open>/home/dev/proj\<close> with its marker file and a \<^verbatim>\<open>.dazelrc\<close> that binds
  \<^verbatim>\<open>DAZEL_PORTS\<close> and \<^verbatim>\<open>DAZEL_USER\<close>, entered three directories below the
  root of the project, with \<^verbatim>\<open>DAZEL_USER\<close> also set in the environment, on an
  interpreter without \<^verbatim>\<open>collections.Iterable\<close>; and variants of it.
\<close>

definition sample_world :: world where
  "sample_world =
     \<lparr>cwd = ''/home/dev/proj/a/b/c'',
      path_exists = (\<lambda>p. p \<in> set [''/home/dev/proj/WORKSPACE'', ''/home/dev/proj/.dazelrc'']),
      exec_file = (\<lambda>p c. Inr (c(''DAZEL_PORTS'' \<mapsto> VStr ''80,443'',
                                   ''DAZEL_USER'' \<mapsto> VStr ''dev''))),
      environ = [''DAZEL_USER'' \<mapsto> ''ci'', ''TERM'' \<mapsto> ''xterm'', ''HOME'' \<mapsto> ''/home/dev''],
      term_columns = 80, term_lines = 24, stdout_isatty = False,
      argv = [''build'', ''//foo:bar''],
      subprocess_call = (\<lambda>c. 0), os_system = (\<lambda>c. 512),
      collections_Iterable = False\<rparr>"

text \<open>The same project with a \<^verbatim>\<open>.dazelrc\<close> that binds \<^verbatim>\<open>PORTS\<close>, without the prefix.\<close>

definition unprefixed_world :: world where
  "unprefixed_world =
     sample_world\<lparr>exec_file := (\<lambda>p c. Inr (c(''PORTS'' \<mapsto> VStr ''80,443'')))\<rparr>"

text \<open>A file system without any marker file.\<close>

definition no_marker_world :: world where
  "no_marker_world = sample_world\<lparr>path_exists := (\<lambda>p. False)\<rparr>"

text \<open>
  A machine without \<^verbatim>\<open>docker-compose\<close>: every command run through
  \<^verbatim>\<open>subprocess.call\<close> returns 1, and the forwarded command exits with status 0.
\<close>

definition no_compose_world :: world where
  "no_compose_world = sample_world\<lparr>subprocess_call := (\<lambda>c. 1), os_system := (\<lambda>c. 0)\<rparr>"

text \<open>A profile without a compose file.\<close>

definition sample_instance :: DockerInstance where
  \<open>sample_instance =
     \<lparr>workspace_root = VStr ''/home/dev/proj'', docker_compose_file = VStr [],
      bazel_rc_file = VStr [], docker_run_privileged = VBool False, user = VStr [],
      ports = [], env_vars = ''-e "CI"''\<rparr>\<close>

section \<open>Facts about the built-in operations\<close>

lemma str_join_wrap:
  "xs \<noteq> [] \<Longrightarrow> a @ str_join (b @ sep @ a) xs @ b = str_join sep (map (\<lambda>x. a @ x @ b) xs)"
proof (induction xs)
  case Nil
  then show ?case by simp
next
  case (Cons x xs)
  then show ?case by (cases xs) auto
qed

lemma strs_of_map_VStr: "strs_of (map (\<lambda>x. VStr (f x)) xs) = Inr (map f xs)"
  by (induction xs) auto

lemma str_split_not_Nil: "str_split c s \<noteq> []"
  by (induction s) (auto split: list.splits)

lemma str_split_no_separator: "list_all (\<lambda>p. c \<notin> set p) (str_split c s)"
  by (induction s) (auto split: list.splits)

lemma str_join_str_split: "str_join [c] (str_split c s) = s"
proof (induction s)
  case Nil
  then show ?case by simp
next
  case (Cons x s)
  show ?case
  proof (cases "x = c")
    case True
    with Cons show ?thesis
      by (cases "str_split c s") (auto simp: str_split_not_Nil)
  next
    case False
    obtain p ps where ps: "str_split c s = p # ps"
      using str_split_not_Nil [of c s] by (cases "str_split c s") auto
    with Cons False show ?thesis
      by (cases ps) auto
  qed
qed

lemma length_str_split: "length (str_split c s) = Suc (count_list s c)"
  by (induction s) (auto split: list.splits simp: str_split_not_Nil)

lemma rstrip_decompose: "xs = rev (dropWhile P (rev xs)) @ rev (takeWhile P (rev xs))"
proof -
  have "rev (rev xs) = rev (takeWhile P (rev xs) @ dropWhile P (rev xs))"
    by (simp only: takeWhile_dropWhile_id)
  then show ?thesis
    by (simp only: rev_rev_ident rev_append)
qed

lemma str_strip_decompose:
  "\<exists>l r. e = l @ str_strip e @ r \<and> list_all is_space l \<and> list_all is_space r"
proof -
  let ?m = "dropWhile is_space e"
  have "e = takeWhile is_space e @ ?m"
    by simp
  moreover have "?m = str_strip e @ rev (takeWhile is_space (rev ?m))"
    unfolding str_strip_def by (rule rstrip_decompose)
  moreover have "list_all is_space (takeWhile is_space e)"
    by (simp add: list_all_iff) (meson set_takeWhileD)
  moreover have "list_all is_space (rev (takeWhile is_space (rev ?m)))"
    by (simp add: list_all_iff) (meson set_takeWhileD)
  ultimately show ?thesis
    by (metis append.assoc)
qed

lemma str_strip_ends:
  assumes "str_strip e \<noteq> []"
  shows "\<not> is_space (hd (str_strip e)) \<and> \<not> is_space (last (str_strip e))"
proof -
  let ?m = "dropWhile is_space e"
  from assms have d: "dropWhile is_space (rev ?m) \<noteq> []"
    by (simp add: str_strip_def)
  then have "\<not> is_space (hd (dropWhile is_space (rev ?m)))"
    by (rule hd_dropWhile)
  then have l: "\<not> is_space (last (str_strip e))"
    using d by (simp add: str_strip_def last_rev)
  have m: "?m \<noteq> []"
  proof
    assume "?m = []"
    then have "dropWhile is_space (rev ?m) = []"
      by (simp only: rev.simps dropWhile.simps)
    with d show False ..
  qed
  then have hm: "\<not> is_space (hd ?m)"
    by (rule hd_dropWhile)
  have "?m = str_strip e @ rev (takeWhile is_space (rev ?m))"
    unfolding str_strip_def by (rule rstrip_decompose)
  then have "hd ?m = hd (str_strip e)"
    using assms by (metis hd_append2)
  with hm l show ?thesis
    by simp
qed

section \<open>Facts about paths and the workspace locator\<close>

lemma prefix_same_length: "prefix xs ys \<Longrightarrow> length xs = length ys \<Longrightarrow> xs = ys"
  by (auto simp: prefix_def)

lemma dirname_head_prefix: "prefix (rev (dropWhile P (rev p))) p"
  using rstrip_decompose [of p P] by (metis prefixI)

lemma dirname_prefix: "prefix (dirname p) p"
proof -
  let ?head = "rev (dropWhile (\<lambda>c. c \<noteq> CHR ''/'') (rev p))"
  have "prefix ?head p"
    by (rule dirname_head_prefix)
  moreover have "prefix (rev (dropWhile (\<lambda>c. c = CHR ''/'') (rev ?head))) ?head"
    by (rule dirname_head_prefix)
  ultimately have "prefix (rev (dropWhile (\<lambda>c. c = CHR ''/'') (rev ?head))) p"
    by (rule prefix_order.trans [rotated])
  then show ?thesis
    using \<open>prefix ?head p\<close> by (simp add: dirname_def Let_def)
qed

lemma all_slashes_cases:
  assumes "p = replicate (length p) (CHR ''/'')"
  shows "p = [] \<or> p = ''/'' \<or> prefix ''//'' p"
proof (cases "length p")
  case 0
  then show ?thesis by simp
next
  case (Suc n)
  show ?thesis
  proof (cases n)
    case 0
    with Suc assms show ?thesis by simp
  next
    case (Suc m)
    with \<open>length p = Suc n\<close> assms have "p = CHR ''/'' # CHR ''/'' # replicate m (CHR ''/'')"
      by simp
    then show ?thesis
      by (metis Cons_prefix_Cons Nil_prefix)
  qed
qed

lemma dirname_shorter:
  assumes "p \<noteq> []" and "p \<noteq> ''/''" and "\<not> prefix ''//'' p"
  shows "length (dirname p) < length p"
proof -
  let ?d = "dropWhile (\<lambda>c. c \<noteq> CHR ''/'') (rev p)"
  let ?head = "rev ?d"
  have le: "length ?head \<le> length p"
    using length_dropWhile_le [of "\<lambda>c. c \<noteq> CHR ''/''" "rev p"] by simp
  show ?thesis
  proof (cases "?head \<noteq> [] \<and> ?head \<noteq> replicate (length ?head) (CHR ''/'')")
    case True
    then have ne: "?d \<noteq> []"
      by (metis rev.simps(1))
    then have "\<not> hd ?d \<noteq> CHR ''/''"
      by (rule hd_dropWhile)
    then obtain ds where ds: "?d = CHR ''/'' # ds"
      using ne by (cases ?d) auto
    have "length (dropWhile (\<lambda>c. c = CHR ''/'') (rev ?head)) \<le> length ds"
      using length_dropWhile_le [of "\<lambda>c. c = CHR ''/''" ds] by (simp add: ds)
    moreover have "length ds < length ?head"
      by (simp add: ds)
    moreover have "dirname p = rev (dropWhile (\<lambda>c. c = CHR ''/'') (rev ?head))"
      unfolding dirname_def Let_def using True by (rule if_P)
    ultimately show ?thesis
      using le by simp
  next
    case False
    then have eq: "dirname p = ?head"
      unfolding dirname_def Let_def by (rule if_not_P)
    show ?thesis
    proof (cases "length ?head < length p")
      case True
      with eq show ?thesis by simp
    next
      case False
      with le have "length ?head = length p"
        by simp
      moreover have "prefix ?head p"
        by (rule dirname_head_prefix)
      ultimately have "?head = p"
        by (rule prefix_same_length [rotated])
      with \<open>\<not> (?head \<noteq> [] \<and> ?head \<noteq> replicate (length ?head) (CHR ''/''))\<close>
      have "p = [] \<or> p = replicate (length p) (CHR ''/'')"
        by (simp only: de_Morgan_conj not_not)
      with assms show ?thesis
        using all_slashes_cases [of p] by blast
    qed
  qed
qed

lemma dirname_no_double_slash:
  assumes "\<not> prefix ''//'' p"
  shows "\<not> prefix ''//'' (dirname p)"
  using assms dirname_prefix [of p] by (meson prefix_order.trans)

lemma dirname_absolute:
  assumes "p \<noteq> []" and "hd p = CHR ''/''"
  shows "dirname p \<noteq> [] \<and> hd (dirname p) = CHR ''/''"
proof -
  let ?d = "dropWhile (\<lambda>c. c \<noteq> CHR ''/'') (rev p)"
  let ?head = "rev ?d"
  from assms have "CHR ''/'' \<in> set (rev p)"
    by (cases p) auto
  then have hne: "?head \<noteq> []"
    by (auto simp: dropWhile_eq_Nil_conv)
  have ne: "dirname p \<noteq> []"
  proof (cases "?head \<noteq> replicate (length ?head) (CHR ''/'')")
    case True
    then have "\<exists>c \<in> set ?head. c \<noteq> CHR ''/''"
      by (metis replicate_length_same)
    then have "dropWhile (\<lambda>c. c = CHR ''/'') (rev ?head) \<noteq> []"
      by (auto simp: dropWhile_eq_Nil_conv)
    moreover have "dirname p = rev (dropWhile (\<lambda>c. c = CHR ''/'') (rev ?head))"
      unfolding dirname_def Let_def using True hne by (simp only: if_True simp_thms)
    ultimately show ?thesis
      by (simp only: rev_is_Nil_conv not_False_eq_True)
  next
    case False
    then have "dirname p = ?head"
      unfolding dirname_def Let_def by (simp only: if_False simp_thms)
    with hne show ?thesis
      by metis
  qed
  moreover have "hd (dirname p) = hd p"
    using ne dirname_prefix [of p] by (metis hd_append2 prefix_def)
  ultimately show ?thesis
    using assms by simp
qed

text \<open>
  The loop leaves every path that does not begin with two slashes: the length of the
  directory decreases at each step.
\<close>

lemma find_workspace_loop_terminates:
  "\<not> prefix ''//'' p \<Longrightarrow> \<exists>d. find_workspace_loop ex p = Some d"
proof (induction p rule: length_induct)
  case (1 p)
  show ?case
  proof (cases "p \<noteq> [] \<and> p \<noteq> ''/'' \<and> \<not> ex (posix_join p BAZEL_WORKSPACE_FILE)")
    case True
    then have "length (dirname p) < length p"
      using "1.prems" by (simp add: dirname_shorter)
    moreover have "\<not> prefix ''//'' (dirname p)"
      using "1.prems" by (rule dirname_no_double_slash)
    ultimately obtain d where "find_workspace_loop ex (dirname p) = Some d"
      using "1.IH" by blast
    with True show ?thesis
      by (subst find_workspace_loop.simps) simp
  next
    case False
    then show ?thesis
      by (subst find_workspace_loop.simps) auto
  qed
qed

text \<open>
  The restriction is needed: the parent of \<^verbatim>\<open>//\<close> is \<^verbatim>\<open>//\<close> itself, so from
  there, without a marker file, the loop never ends.
\<close>

lemma find_workspace_loop_double_slash:
  "find_workspace_loop (\<lambda>path. False) ''//'' = None"
proof -
  have "ex = (\<lambda>path. False) \<longrightarrow> p \<noteq> ''//''" if t: "find_workspace_loop ex p = Some r" for ex p r
  proof (rule find_workspace_loop.raw_induct
      [where P = "\<lambda>ex p r. ex = (\<lambda>path. False) \<longrightarrow> p \<noteq> ''//''", OF _ t])
    fix f :: "(string \<Rightarrow> bool) \<Rightarrow> string \<Rightarrow> string option"
    fix ex directory r
    assume ih: "\<And>ex' b y. f ex' b = Some y \<Longrightarrow> ex' = (\<lambda>path. False) \<longrightarrow> b \<noteq> ''//''"
      and eq: "(if directory \<noteq> [] \<and> directory \<noteq> ''/'' \<and>
                   \<not> ex (posix_join directory BAZEL_WORKSPACE_FILE)
                then f ex (dirname directory) else Some directory) = Some r"
    show "ex = (\<lambda>path. False) \<longrightarrow> directory \<noteq> ''//''"
    proof (intro impI notI)
      assume e: "ex = (\<lambda>path. False)" and d: "directory = ''//''"
      have "dirname ''//'' = ''//''"
        by (simp add: dirname_def)
      with eq e d have "f (\<lambda>path. False) ''//'' = Some r"
        by simp
      with ih show False
        by blast
    qed
  qed
  then show ?thesis
    by (cases "find_workspace_loop (\<lambda>path. False) ''//''") auto
qed

lemma find_workspace_loop_no_marker:
  assumes "p \<noteq> []" and "hd p = CHR ''/''" and "\<not> prefix ''//'' p"
    and "\<forall>n. \<not> ex (posix_join ((dirname ^^ n) p) BAZEL_WORKSPACE_FILE)"
  shows "find_workspace_loop ex p = Some ''/''"
  using assms
proof (induction p rule: length_induct)
  case (1 p)
  show ?case
  proof (cases "p = ''/''")
    case True
    then show ?thesis
      by (subst find_workspace_loop.simps) simp
  next
    case False
    have "\<not> ex (posix_join p BAZEL_WORKSPACE_FILE)"
      using "1.prems"(4) [rule_format, of 0] by simp
    moreover have "find_workspace_loop ex (dirname p) = Some ''/''"
    proof -
      have "length (dirname p) < length p"
        using False "1.prems" by (simp add: dirname_shorter)
      moreover have "dirname p \<noteq> []" and "hd (dirname p) = CHR ''/''"
        using dirname_absolute [of p] "1.prems" by simp_all
      moreover have "\<not> prefix ''//'' (dirname p)"
        using "1.prems"(3) by (rule dirname_no_double_slash)
      moreover have "\<forall>n. \<not> ex (posix_join ((dirname ^^ n) (dirname p)) BAZEL_WORKSPACE_FILE)"
      proof
        fix n
        show "\<not> ex (posix_join ((dirname ^^ n) (dirname p)) BAZEL_WORKSPACE_FILE)"
          using "1.prems"(4) [rule_format, of "Suc n"] by (simp add: funpow_swap1)
      qed
      ultimately show ?thesis
        using "1.IH" by blast
    qed
    ultimately show ?thesis
      using False "1.prems"(1) by (subst find_workspace_loop.simps) simp
  qed
qed

lemma dirname_posix_join:
  assumes "d = ''/'' \<or> (d \<noteq> [] \<and> last d \<noteq> CHR ''/'')"
    and "a \<noteq> []" and "CHR ''/'' \<notin> set a"
  shows "dirname (posix_join d a) = d"
    and "posix_join d a \<noteq> []" and "posix_join d a \<noteq> ''/''"
    and "last (posix_join d a) \<noteq> CHR ''/''"
proof -
  from assms(2,3) have np: "\<not> prefix ''/'' a"
    by (cases a) auto
  have dw: "dropWhile (\<lambda>c. c \<noteq> CHR ''/'') (rev a @ xs) = dropWhile (\<lambda>c. c \<noteq> CHR ''/'') xs" for xs
    using assms(3) by (simp add: dropWhile_append)
  from assms(1) show "dirname (posix_join d a) = d"
  proof
    assume "d = ''/''"
    then show ?thesis
      using np dw [of "''/''"] by (simp add: posix_join_def dirname_def)
  next
    assume d: "d \<noteq> [] \<and> last d \<noteq> CHR ''/''"
    then have pj: "posix_join d a = d @ ''/'' @ a"
      using np by (simp add: posix_join_def)
    have h: "rev (dropWhile (\<lambda>c. c \<noteq> CHR ''/'') (rev (d @ ''/'' @ a))) = d @ ''/''"
      using dw [of "CHR ''/'' # rev d"] by simp
    have "d @ ''/'' \<noteq> replicate (length (d @ ''/'')) (CHR ''/'')"
    proof
      assume "d @ ''/'' = replicate (length (d @ ''/'')) (CHR ''/'')"
      then have "set (d @ ''/'') = set (replicate (length (d @ ''/'')) (CHR ''/''))"
        by (rule arg_cong)
      then have "set (d @ ''/'') \<subseteq> {CHR ''/''}"
        by (simp only: set_replicate_conv_if split: if_splits) auto
      moreover from d have "last d \<in> set d"
        by simp
      ultimately have "last d = CHR ''/''"
        by auto
      with d show False
        by simp
    qed
    moreover have "rev (dropWhile (\<lambda>c. c = CHR ''/'') (rev (d @ ''/''))) = d"
    proof -
      from d obtain x xs where r: "rev d = x # xs" and "x \<noteq> CHR ''/''"
        by (cases "rev d") (auto simp: last_rev [symmetric] hd_rev)
      then have "dropWhile (\<lambda>c. c = CHR ''/'') (rev (d @ ''/'')) = rev d"
        by simp
      then show ?thesis
        by simp
    qed
    ultimately show ?thesis
      by (simp add: pj dirname_def Let_def h del: append.simps rev_append)
  qed
  show "posix_join d a \<noteq> []"
    using assms by (auto simp: posix_join_def)
  have "2 \<le> length (posix_join d a)"
    using assms np by (cases a; cases d) (auto simp: posix_join_def)
  then show "posix_join d a \<noteq> ''/''"
    by auto
  have "last a \<in> set a"
    using assms(2) by (rule last_in_set)
  with assms(3) have "last a \<noteq> CHR ''/''"
    by metis
  then show "last (posix_join d a) \<noteq> CHR ''/''"
    using assms np by (auto simp: posix_join_def)
qed

section \<open>Evaluation of the sample runs\<close>

lemma sample_find: "find_workspace_directory sample_world = Some ''/home/dev/proj''"
  by (simp add: find_workspace_directory_def sample_world_def find_workspace_loop.simps
      dirname_def posix_join_def BAZEL_WORKSPACE_FILE_def)

lemma sample_file:
  "config_from_file sample_world =
     Some (Inr [''DAZEL_WORKSPACE_ROOT'' \<mapsto> VStr ''/home/dev/proj'',
                ''DAZEL_PORTS'' \<mapsto> VStr ''80,443'', ''DAZEL_USER'' \<mapsto> VStr ''dev''])"
  by (simp add: config_from_file_def sample_find)
     (simp add: sample_world_def posix_join_def DAZEL_RC_FILENAME_def)

lemma ports_80_443: \<open>add_ports alias (VStr ''80,443'') = Inr ''-p "80" -p "443"''\<close>
  by (simp add: add_ports_def str_strip_def is_space_def)

lemma sample_from_config:
  \<open>from_config sample_world =
     Some (Inr \<lparr>workspace_root = VStr ''/home/dev/proj'', docker_compose_file = VStr [],
      bazel_rc_file = VStr [], docker_run_privileged = VBool False, user = VStr ''ci'',
      ports = ''-p "80" -p "443"'', env_vars = []\<rparr>)\<close>
  by (simp add: from_config_def merged_config_def sample_file)
     (simp add: config_get_def map_add_def config_from_environment_def DockerInstance_init_def
      ports_80_443 sample_world_def add_env_vars_def DEFAULT_ENV_VARS_def
      DEFAULT_DOCKER_COMPOSE_FILE_def DEFAULT_BAZEL_RC_FILE_def DEFAULT_DOCKER_RUN_PRIVILEGED_def)

lemma from_config_spawn_independent:
  "from_config (w\<lparr>subprocess_call := f, os_system := g\<rparr>) = from_config w"
proof -
  let ?w = "w\<lparr>subprocess_call := f, os_system := g\<rparr>"
  have "config_from_file ?w = config_from_file w"
    by (simp add: config_from_file_def find_workspace_directory_def Let_def split: option.split)
  moreover have "config_from_environment ?w = config_from_environment w"
    by (auto simp add: config_from_environment_def fun_eq_iff)
  ultimately have "merged_config ?w = merged_config w"
    by (simp add: merged_config_def split: option.split sum.split)
  then show ?thesis
    by (simp add: from_config_def split: option.split sum.split)
qed

lemma start_without_compose_file:
  assumes "\<not> truthy (docker_compose_file di)"
  shows "start w di spawned =
           (Inr (if subprocess_call w ''which docker-compose >/dev/null 2>&1'' = 0 then 0 else 1),
            spawned @ [''which docker-compose >/dev/null 2>&1''])"
  using assms
  by (simp add: start_def docker_compose_exists_def command_exists_def run_silent_command_def
      DOCKER_COMPOSE_COMMAND_def Let_def start_compose_services_def)

text \<open>
  On an interpreter without \<^verbatim>\<open>collections.Iterable\<close> (Python 3.10 and later) every
  true value that is not a string stops both normalisers with the \<^verbatim>\<open>AttributeError\<close>,
  lists included.
\<close>

lemma normalisers_without_Iterable:
  assumes "truthy v" and "\<forall>s. v \<noteq> VStr s"
  shows "add_ports False v = Inl AttributeError \<and> add_env_vars False v = Inl AttributeError"
  using assms by (cases v) (simp_all add: add_ports_def add_env_vars_def)

section \<open>Results\<close>

subsection \<open>Configuration merge\<close>

text \<open>
  C1. In the configuration that \<^verbatim>\<open>from_config\<close> builds, a key bound by the environment
  source has the environment's value, whether or not the file source binds it too; a key
  bound by the file source only keeps the file's value; no other key is bound. The
  environment source is the set of variables whose name starts with \<^verbatim>\<open>DAZEL_\<close>, and
  the profile is constructed from the merged values.
\<close>

theorem environment_overrides_file:
  assumes "config_from_file w = Some (Inr file_config)"
  shows "merged_config w = Some (Inr (file_config ++ config_from_environment w))
    \<and> (\<forall>key. (key \<in> dom (config_from_environment w) \<longrightarrow>
                 (file_config ++ config_from_environment w) key = config_from_environment w key)
              \<and> (key \<in> dom file_config - dom (config_from_environment w) \<longrightarrow>
                 (file_config ++ config_from_environment w) key = file_config key)
              \<and> (key \<notin> dom file_config \<union> dom (config_from_environment w) \<longrightarrow>
                 (file_config ++ config_from_environment w) key = None))
    \<and> (\<forall>name value. prefix ''DAZEL_'' name \<and> environ w name = Some value \<longrightarrow>
           (file_config ++ config_from_environment w) name = Some (VStr value))
    \<and> from_config w =
        Some (DockerInstance_init (collections_Iterable w)
          (config_get (file_config ++ config_from_environment w) ''DAZEL_WORKSPACE_ROOT'' VNone)
          (config_get (file_config ++ config_from_environment w) ''DAZEL_PORTS'' DEFAULT_PORTS)
          (config_get (file_config ++ config_from_environment w) ''DAZEL_ENV_VARS''
             DEFAULT_ENV_VARS)
          (config_get (file_config ++ config_from_environment w) ''DAZEL_DOCKER_COMPOSE_FILE''
             DEFAULT_DOCKER_COMPOSE_FILE)
          (config_get (file_config ++ config_from_environment w) ''DAZEL_BAZEL_RC_FILE''
             DEFAULT_BAZEL_RC_FILE)
          (config_get (file_config ++ config_from_environment w) ''DAZEL_DOCKER_RUN_PRIVILEGED''
             DEFAULT_DOCKER_RUN_PRIVILEGED)
          (config_get (file_config ++ config_from_environment w) ''DAZEL_USER'' DEFAULT_USER))"
proof -
  let ?env = "config_from_environment w"
  have m: "merged_config w = Some (Inr (file_config ++ ?env))"
    using assms by (simp add: merged_config_def)
  have "(file_config ++ ?env) key = ?env key" if "key \<in> dom ?env" for key
    using that by (auto simp: map_add_def split: option.split)
  moreover have "(file_config ++ ?env) key = file_config key"
    if "key \<in> dom file_config - dom ?env" for key
    using that by (auto simp: map_add_def split: option.split)
  moreover have "(file_config ++ ?env) key = None"
    if "key \<notin> dom file_config \<union> dom ?env" for key
    using that by (auto simp: map_add_def split: option.split)
  moreover have "(file_config ++ ?env) name = Some (VStr value)"
    if "prefix ''DAZEL_'' name \<and> environ w name = Some value" for name "value"
    using that by (simp add: map_add_def config_from_environment_def)
  moreover have "from_config w =
        Some (DockerInstance_init (collections_Iterable w)
          (config_get (file_config ++ ?env) ''DAZEL_WORKSPACE_ROOT'' VNone)
          (config_get (file_config ++ ?env) ''DAZEL_PORTS'' DEFAULT_PORTS)
          (config_get (file_config ++ ?env) ''DAZEL_ENV_VARS'' DEFAULT_ENV_VARS)
          (config_get (file_config ++ ?env) ''DAZEL_DOCKER_COMPOSE_FILE''
             DEFAULT_DOCKER_COMPOSE_FILE)
          (config_get (file_config ++ ?env) ''DAZEL_BAZEL_RC_FILE'' DEFAULT_BAZEL_RC_FILE)
          (config_get (file_config ++ ?env) ''DAZEL_DOCKER_RUN_PRIVILEGED''
             DEFAULT_DOCKER_RUN_PRIVILEGED)
          (config_get (file_config ++ ?env) ''DAZEL_USER'' DEFAULT_USER))"
    by (simp add: from_config_def m)
  ultimately show ?thesis
    using m by blast
qed

text \<open>
  In the sample run the file binds \<^verbatim>\<open>DAZEL_USER\<close> to \<^verbatim>\<open>dev\<close> and the environment
  binds it to \<^verbatim>\<open>ci\<close>: the merge holds \<^verbatim>\<open>ci\<close>, and keeps the file's ports.
\<close>

theorem environment_overrides_file_witness:
  "config_from_file sample_world =
     Some (Inr [''DAZEL_WORKSPACE_ROOT'' \<mapsto> VStr ''/home/dev/proj'',
                ''DAZEL_PORTS'' \<mapsto> VStr ''80,443'', ''DAZEL_USER'' \<mapsto> VStr ''dev''])
   \<and> merged_config sample_world =
       Some (Inr ([''DAZEL_WORKSPACE_ROOT'' \<mapsto> VStr ''/home/dev/proj'',
                   ''DAZEL_PORTS'' \<mapsto> VStr ''80,443'', ''DAZEL_USER'' \<mapsto> VStr ''dev'']
                  ++ config_from_environment sample_world))
   \<and> ([''DAZEL_WORKSPACE_ROOT'' \<mapsto> VStr ''/home/dev/proj'',
        ''DAZEL_PORTS'' \<mapsto> VStr ''80,443'', ''DAZEL_USER'' \<mapsto> VStr ''dev'']
       ++ config_from_environment sample_world) ''DAZEL_USER'' = Some (VStr ''ci'')
   \<and> ([''DAZEL_WORKSPACE_ROOT'' \<mapsto> VStr ''/home/dev/proj'',
        ''DAZEL_PORTS'' \<mapsto> VStr ''80,443'', ''DAZEL_USER'' \<mapsto> VStr ''dev'']
       ++ config_from_environment sample_world) ''DAZEL_PORTS'' = Some (VStr ''80,443'')"
proof -
  let ?fc = "[''DAZEL_WORKSPACE_ROOT'' \<mapsto> VStr ''/home/dev/proj'',
              ''DAZEL_PORTS'' \<mapsto> VStr ''80,443'', ''DAZEL_USER'' \<mapsto> VStr ''dev'']"
  note t = environment_overrides_file [OF sample_file]
  have e: "environ sample_world ''DAZEL_USER'' = Some ''ci''"
    by (simp add: sample_world_def)
  have "prefix ''DAZEL_'' ''DAZEL_USER'' \<and> environ sample_world ''DAZEL_USER'' = Some ''ci''"
    using e by simp
  with t have u: "(?fc ++ config_from_environment sample_world) ''DAZEL_USER'' = Some (VStr ''ci'')"
    by blast
  have "''DAZEL_PORTS'' \<in> dom ?fc - dom (config_from_environment sample_world)"
    by (simp add: config_from_environment_def sample_world_def dom_def)
  with t have "(?fc ++ config_from_environment sample_world) ''DAZEL_PORTS'' = ?fc ''DAZEL_PORTS''"
    by blast
  then have p: "(?fc ++ config_from_environment sample_world) ''DAZEL_PORTS'' = Some (VStr ''80,443'')"
    by simp
  from t sample_file u p show ?thesis
    by blast
qed

subsection \<open>Exit code of the process\<close>

text \<open>
  C2. On a machine without \<^verbatim>\<open>docker-compose\<close> the start step returns 1, yet
  \<^verbatim>\<open>main\<close> goes on to forward the command and returns the exit status of the
  forwarded command, here 0: the value kept from \<^verbatim>\<open>start\<close> never reaches the exit
  code. The exit status itself is the one \<^verbatim>\<open>os.WEXITSTATUS\<close> extracts from the wait
  status: a forwarded command that exits with status 2 ends with the wait status 512, and
  \<^verbatim>\<open>send_command\<close> returns 2.
\<close>

theorem main_discards_start_result:
  \<open>fst (start no_compose_world
          \<lparr>workspace_root = VStr ''/home/dev/proj'', docker_compose_file = VStr [],
           bazel_rc_file = VStr [], docker_run_privileged = VBool False, user = VStr ''ci'',
           ports = ''-p "80" -p "443"'', env_vars = []\<rparr> []) = Inr 1
   \<and> main no_compose_world =
       Some (Inr 0,
         [''which docker-compose >/dev/null 2>&1'',
          ''docker exec -i -e COLUMNS=80 -e LINES=24 -e TERM=xterm -w /code    --user=ci dazel_build /usr/bin/bazel  --output_user_root=/var/bazel/workspace/_bazel_dazel --output_base=/root/.cache/bazel/_bazel_dazel "build" "//foo:bar"''])
   \<and> os_system sample_world (send_command_line sample_world sample_instance (argv sample_world))
       = 512
   \<and> fst (send_command sample_world sample_instance (argv sample_world) []) = 2\<close>
proof -
  let ?di = \<open>\<lparr>workspace_root = VStr ''/home/dev/proj'', docker_compose_file = VStr [],
           bazel_rc_file = VStr [], docker_run_privileged = VBool False, user = VStr ''ci'',
           ports = ''-p "80" -p "443"'', env_vars = []\<rparr>\<close>
  have fc: "from_config no_compose_world = Some (Inr ?di)"
    by (simp add: no_compose_world_def from_config_spawn_independent sample_from_config)
  have st: "start no_compose_world ?di [] = (Inr 1, [''which docker-compose >/dev/null 2>&1''])"
    by (simp add: start_without_compose_file no_compose_world_def)
  have sc: \<open>send_command no_compose_world ?di (argv no_compose_world)
              [''which docker-compose >/dev/null 2>&1''] =
            (0, [''which docker-compose >/dev/null 2>&1'',
          ''docker exec -i -e COLUMNS=80 -e LINES=24 -e TERM=xterm -w /code    --user=ci dazel_build /usr/bin/bazel  --output_user_root=/var/bazel/workspace/_bazel_dazel --output_base=/root/.cache/bazel/_bazel_dazel "build" "//foo:bar"''])\<close>
    by (simp add: send_command_def send_command_line_def send_command_flags_def
      no_compose_world_def sample_world_def
      str_int_def str_nat.simps DOCKER_COMMAND_def BUILD_CONTAINER_NAME_def
      CONTAINER_BAZEL_BIN_def CONTAINER_OUTPUT_USER_ROOT_def CONTAINER_OUTPUT_BASE_def
      WEXITSTATUS_def)
  have ws: "os_system sample_world
              (send_command_line sample_world sample_instance (argv sample_world)) = 512"
    by (simp add: sample_world_def)
  then have ex: "fst (send_command sample_world sample_instance (argv sample_world) []) = 2"
    by (simp add: send_command_def Let_def WEXITSTATUS_def)
  show ?thesis
    by (simp add: main_def fc st sc ws ex)
qed

subsection \<open>Starting without a compose file\<close>

text \<open>
  C3, as stated, fails: with an empty compose file \<^verbatim>\<open>start\<close> still runs the probe
  \<^verbatim>\<open>which docker-compose\<close>, and it returns 1 when the probe fails.
\<close>

theorem start_spawns_probe_counterexample:
  "docker_compose_file sample_instance = VStr []
   \<and> start sample_world sample_instance [] =
       (Inr 0, [''which docker-compose >/dev/null 2>&1''])
   \<and> start no_compose_world sample_instance [] =
       (Inr 1, [''which docker-compose >/dev/null 2>&1''])"
  by (simp add: start_def docker_compose_exists_def command_exists_def run_silent_command_def
      DOCKER_COMPOSE_COMMAND_def Let_def start_compose_services_def sample_instance_def
      no_compose_world_def sample_world_def)

text \<open>
  C3, amended. For every profile whose compose file is empty (or any other false value),
  \<^verbatim>\<open>_start_compose_services\<close> returns 0 and spawns nothing; \<^verbatim>\<open>start\<close> spawns
  exactly one command, the probe for the \<^verbatim>\<open>docker-compose\<close> executable, and returns
  0 when the probe succeeds and 1 when it fails.
\<close>

theorem start_without_compose_file_only_probes:
  assumes "\<not> truthy (docker_compose_file di)"
  shows "start_compose_services w di spawned = (Inr 0, spawned)
    \<and> snd (start w di spawned) = spawned @ [''which docker-compose >/dev/null 2>&1'']
    \<and> fst (start w di spawned) =
        Inr (if subprocess_call w ''which docker-compose >/dev/null 2>&1'' = 0 then 0 else 1)"
  using assms
  by (simp add: start_def docker_compose_exists_def command_exists_def run_silent_command_def
      DOCKER_COMPOSE_COMMAND_def Let_def start_compose_services_def)

theorem start_without_compose_file_only_probes_witness:
  "\<not> truthy (docker_compose_file sample_instance)
   \<and> start_compose_services sample_world sample_instance [] = (Inr 0, [])
   \<and> snd (start sample_world sample_instance []) = [''which docker-compose >/dev/null 2>&1'']
   \<and> fst (start sample_world sample_instance []) = Inr 0"
proof -
  have h: "\<not> truthy (docker_compose_file sample_instance)"
    by (simp add: sample_instance_def)
  have "subprocess_call sample_world ''which docker-compose >/dev/null 2>&1'' = 0"
    by (simp add: sample_world_def)
  with h start_without_compose_file_only_probes [OF h, of sample_world "[]"] show ?thesis
    by simp
qed

subsection \<open>Normalisation of ports and environment variables\<close>

text \<open>
  C7. The empty string, \<^verbatim>\<open>None\<close> and the empty list each leave the empty fragment,
  for the ports and for the environment variables, on every interpreter: the fragment
  holds no token at all.
\<close>

theorem empty_values_render_empty_fragment:
  "add_ports alias (VStr []) = Inr [] \<and> add_ports alias VNone = Inr []
   \<and> add_ports alias (VList []) = Inr []
   \<and> add_env_vars alias (VStr []) = Inr [] \<and> add_env_vars alias VNone = Inr []
   \<and> add_env_vars alias (VList []) = Inr []"
  by (simp add: add_ports_def add_env_vars_def)

text \<open>
  C8, as stated, fails on every interpreter: the bare integer 0 is a false value and is
  accepted with an empty fragment, and a list holding a non-string is never rejected with
  an error that names a configuration key: where \<^verbatim>\<open>collections.Iterable\<close> exists
  it passes the test and \<^verbatim>\<open>str.join\<close> raises a \<^verbatim>\<open>TypeError\<close>, and where the
  name does not exist the test itself raises an \<^verbatim>\<open>AttributeError\<close>.
\<close>

theorem normalisation_error_counterexample:
  "add_ports True (VInt 0) = Inr [] \<and> add_ports False (VInt 0) = Inr []
   \<and> add_env_vars True (VInt 0) = Inr [] \<and> add_env_vars False (VInt 0) = Inr []
   \<and> add_ports True (VList [VInt 1]) = Inl TypeError
   \<and> add_env_vars True (VList [VInt 1]) = Inl TypeError
   \<and> add_ports False (VList [VInt 1]) = Inl AttributeError
   \<and> add_env_vars False (VList [VInt 1]) = Inl AttributeError"
  by (simp add: add_ports_def add_env_vars_def)

text \<open>
  C8, amended. On an interpreter that has \<^verbatim>\<open>collections.Iterable\<close> (Python before
  3.10), for every true value that is neither a string nor an iterable (a non-zero integer,
  \<^verbatim>\<open>True\<close>), normalising it as ports fails with the \<^verbatim>\<open>RuntimeError\<close> whose
  message starts with \<^verbatim>\<open>DAZEL_PORTS\<close> and describes the accepted shapes, and as
  environment variables with the one that starts with \<^verbatim>\<open>DAZEL_ENV_VARS\<close>; the
  construction of the profile fails with the same error, so no fragment is produced.
\<close>

theorem normalisation_rejects_scalars:
  assumes "truthy v" and "\<not> is_iterable v"
  shows "add_ports True v = Inl (RuntimeError
           ''DAZEL_PORTS must be comma-separated string or python iterable of strings'')
    \<and> add_env_vars True v = Inl (RuntimeError
           ''DAZEL_ENV_VARS must be comma-separated string or python iterable of strings'')
    \<and> DockerInstance_init True root v e compose_file rc_file privileged usr =
         Inl (RuntimeError
           ''DAZEL_PORTS must be comma-separated string or python iterable of strings'')
    \<and> DockerInstance_init True root (VList []) v compose_file rc_file privileged usr =
         Inl (RuntimeError
           ''DAZEL_ENV_VARS must be comma-separated string or python iterable of strings'')"
  using assms
  by (cases v) (simp_all add: add_ports_def add_env_vars_def DockerInstance_init_def)

theorem normalisation_rejects_scalars_witness:
  "truthy (VInt 8080) \<and> \<not> is_iterable (VInt 8080)
   \<and> add_ports True (VInt 8080) = Inl (RuntimeError
        ''DAZEL_PORTS must be comma-separated string or python iterable of strings'')
   \<and> add_env_vars True (VInt 8080) = Inl (RuntimeError
        ''DAZEL_ENV_VARS must be comma-separated string or python iterable of strings'')"
proof -
  have h: "truthy (VInt 8080)" "\<not> is_iterable (VInt 8080)"
    by simp_all
  from h normalisation_rejects_scalars [OF h] show ?thesis
    by blast
qed

subsection \<open>The forwarded arguments\<close>

text \<open>
  C9. For every non-empty argument list, the command line is the flags, one blank, and then
  the arguments in their order, each wrapped in double quotes and separated by one blank;
  that command line is the one handed to the shell. For \<^verbatim>\<open>["build", "//foo:bar"]\<close>
  the part after the flags is \<^verbatim>\<open>"build" "//foo:bar"\<close>.
\<close>

theorem send_command_forwards_arguments:
  assumes "args \<noteq> []"
  shows \<open>send_command_line w di args =
           send_command_flags w di @ '' '' @ str_join '' '' (map (\<lambda>a. ''"'' @ a @ ''"'') args)
         \<and> snd (send_command w di args spawned) = spawned @ [send_command_line w di args]
         \<and> send_command_line w di [''build'', ''//foo:bar''] =
             send_command_flags w di @ '' "build" "//foo:bar"''\<close>
proof -
  have \<open>''"'' @ str_join (''"'' @ '' '' @ ''"'') args @ ''"'' =
        str_join '' '' (map (\<lambda>a. ''"'' @ a @ ''"'') args)\<close>
    using assms by (rule str_join_wrap)
  then show ?thesis
    by (simp add: send_command_line_def send_command_def Let_def)
qed

theorem send_command_forwards_arguments_witness:
  \<open>[''build'', ''//foo:bar''] \<noteq> ([] :: string list)
   \<and> snd (send_command sample_world sample_instance [''build'', ''//foo:bar''] []) =
       [''docker exec -i -e COLUMNS=80 -e LINES=24 -e TERM=xterm -w /code -e "CI"    dazel_build /usr/bin/bazel  --output_user_root=/var/bazel/workspace/_bazel_dazel --output_base=/root/.cache/bazel/_bazel_dazel "build" "//foo:bar"'']\<close>
  using send_command_forwards_arguments
          [of "[''build'', ''//foo:bar'']" sample_world sample_instance "[]"]
  by (simp add: send_command_flags_def sample_world_def sample_instance_def str_int_def
      str_nat.simps DOCKER_COMMAND_def BUILD_CONTAINER_NAME_def CONTAINER_BAZEL_BIN_def
      CONTAINER_OUTPUT_USER_ROOT_def CONTAINER_OUTPUT_BASE_def)

text \<open>
  C10. With an empty argument list the command line still ends with one empty quoted
  token: the flags, one blank and \<^verbatim>\<open>""\<close>.
\<close>

theorem send_command_empty_arguments:
  \<open>send_command_line w di [] = send_command_flags w di @ '' ""''
   \<and> snd (send_command w di [] spawned) = spawned @ [send_command_flags w di @ '' ""'']\<close>
  by (simp add: send_command_line_def send_command_def Let_def)

subsection \<open>Ports bound in the configuration file\<close>

text \<open>
  C4, as stated, fails: a \<^verbatim>\<open>.dazelrc\<close> that binds \<^verbatim>\<open>PORTS\<close> is not read, since
  \<^verbatim>\<open>from_config\<close> looks the ports up under \<^verbatim>\<open>DAZEL_PORTS\<close>; the ports fragment
  of the profile is empty.
\<close>

theorem unprefixed_ports_counterexample:
  "exec_file unprefixed_world ''/home/dev/proj/.dazelrc''
       [''DAZEL_WORKSPACE_ROOT'' \<mapsto> VStr ''/home/dev/proj''] =
     Inr [''DAZEL_WORKSPACE_ROOT'' \<mapsto> VStr ''/home/dev/proj'', ''PORTS'' \<mapsto> VStr ''80,443'']
   \<and> environ unprefixed_world ''PORTS'' = None
   \<and> environ unprefixed_world ''DAZEL_PORTS'' = None
   \<and> from_config unprefixed_world =
       Some (Inr \<lparr>workspace_root = VStr ''/home/dev/proj'', docker_compose_file = VStr [],
                  bazel_rc_file = VStr [], docker_run_privileged = VBool False,
                  user = VStr ''ci'', ports = [], env_vars = []\<rparr>)"
proof -
  have f: "find_workspace_directory unprefixed_world = Some ''/home/dev/proj''"
    using sample_find
    by (simp add: find_workspace_directory_def unprefixed_world_def)
  have c: "config_from_file unprefixed_world =
     Some (Inr [''DAZEL_WORKSPACE_ROOT'' \<mapsto> VStr ''/home/dev/proj'',
                ''PORTS'' \<mapsto> VStr ''80,443''])"
    by (simp add: config_from_file_def f)
       (simp add: unprefixed_world_def sample_world_def posix_join_def DAZEL_RC_FILENAME_def)
  have "from_config unprefixed_world =
       Some (Inr \<lparr>workspace_root = VStr ''/home/dev/proj'', docker_compose_file = VStr [],
                  bazel_rc_file = VStr [], docker_run_privileged = VBool False,
                  user = VStr ''ci'', ports = [], env_vars = []\<rparr>)"
    by (simp add: from_config_def merged_config_def c)
       (simp add: config_get_def map_add_def config_from_environment_def DockerInstance_init_def
          unprefixed_world_def sample_world_def add_ports_def add_env_vars_def
          DEFAULT_PORTS_def DEFAULT_ENV_VARS_def DEFAULT_DOCKER_COMPOSE_FILE_def
          DEFAULT_BAZEL_RC_FILE_def DEFAULT_DOCKER_RUN_PRIVILEGED_def)
  then show ?thesis
    by (simp add: unprefixed_world_def sample_world_def)
qed

text \<open>
  C4, amended. When the configuration read from the workspace's \<^verbatim>\<open>.dazelrc\<close> binds
  \<^verbatim>\<open>DAZEL_PORTS\<close> to \<^verbatim>\<open>"80,443"\<close> and the environment has no variable
  \<^verbatim>\<open>DAZEL_PORTS\<close>, the ports fragment of the profile is \<^verbatim>\<open>-p "80" -p "443"\<close>.
\<close>

theorem dazel_ports_from_file_rendered:
  assumes "config_from_file w = Some (Inr file_config)"
    and "file_config ''DAZEL_PORTS'' = Some (VStr ''80,443'')"
    and "environ w ''DAZEL_PORTS'' = None"
    and "from_config w = Some (Inr di)"
  shows \<open>ports di = ''-p "80" -p "443"''\<close>
proof -
  have "(file_config ++ config_from_environment w) ''DAZEL_PORTS'' = Some (VStr ''80,443'')"
    using assms(2,3) by (simp add: map_add_def config_from_environment_def)
  then have "config_get (file_config ++ config_from_environment w) ''DAZEL_PORTS'' DEFAULT_PORTS
             = VStr ''80,443''"
    by (simp add: config_get_def)
  then show ?thesis
    using assms(1,4)
    by (auto simp add: from_config_def merged_config_def DockerInstance_init_def ports_80_443
        split: sum.splits)
qed

theorem dazel_ports_from_file_rendered_witness:
  \<open>config_from_file sample_world =
     Some (Inr [''DAZEL_WORKSPACE_ROOT'' \<mapsto> VStr ''/home/dev/proj'',
                ''DAZEL_PORTS'' \<mapsto> VStr ''80,443'', ''DAZEL_USER'' \<mapsto> VStr ''dev''])
   \<and> environ sample_world ''DAZEL_PORTS'' = None
   \<and> from_config sample_world =
       Some (Inr \<lparr>workspace_root = VStr ''/home/dev/proj'', docker_compose_file = VStr [],
                  bazel_rc_file = VStr [], docker_run_privileged = VBool False,
                  user = VStr ''ci'', ports = ''-p "80" -p "443"'', env_vars = []\<rparr>)
   \<and> ports \<lparr>workspace_root = VStr ''/home/dev/proj'', docker_compose_file = VStr [],
             bazel_rc_file = VStr [], docker_run_privileged = VBool False,
             user = VStr ''ci'', ports = ''-p "80" -p "443"'', env_vars = []\<rparr> =
       ''-p "80" -p "443"''\<close>
proof -
  have b: "[''DAZEL_WORKSPACE_ROOT'' \<mapsto> VStr ''/home/dev/proj'',
            ''DAZEL_PORTS'' \<mapsto> VStr ''80,443'', ''DAZEL_USER'' \<mapsto> VStr ''dev'']
             ''DAZEL_PORTS'' = Some (VStr ''80,443'')"
    by simp
  have e: "environ sample_world ''DAZEL_PORTS'' = None"
    by (simp add: sample_world_def)
  from dazel_ports_from_file_rendered [OF sample_file b e sample_from_config]
    sample_file e sample_from_config
  show ?thesis
    by blast
qed

subsection \<open>The workspace locator\<close>

text \<open>
  C5, as stated, fails: with no marker file in any ancestor the locator returns the root
  path \<^verbatim>\<open>/\<close>, not an empty value.
\<close>

theorem locator_without_marker_counterexample:
  "cwd no_marker_world = ''/home/dev/proj/a/b/c''
   \<and> find_workspace_directory no_marker_world = Some ''/''
   \<and> find_workspace_directory no_marker_world \<noteq> Some []"
  by (simp add: find_workspace_directory_def no_marker_world_def sample_world_def
      find_workspace_loop.simps dirname_def posix_join_def BAZEL_WORKSPACE_FILE_def)

text \<open>
  C5, amended. Started three levels below a directory that holds the marker file (the
  root, or a path that does not end with a slash), with no marker in the three directories
  below it, the locator returns that directory. Started from an absolute path that does not
  begin with two slashes and has no marker in any ancestor, it returns the root path
  \<^verbatim>\<open>/\<close>. From every path that does not begin with two slashes it returns: the loop
  terminates, and nothing in it can raise. A resolved working directory is such a path.
\<close>

theorem workspace_locator:
  "((d = ''/'' \<or> (d \<noteq> [] \<and> last d \<noteq> CHR ''/'' \<and> ex (posix_join d BAZEL_WORKSPACE_FILE)))
      \<and> a \<noteq> [] \<and> CHR ''/'' \<notin> set a \<and> b \<noteq> [] \<and> CHR ''/'' \<notin> set b
      \<and> c \<noteq> [] \<and> CHR ''/'' \<notin> set c
      \<and> \<not> ex (posix_join (posix_join d a) BAZEL_WORKSPACE_FILE)
      \<and> \<not> ex (posix_join (posix_join (posix_join d a) b) BAZEL_WORKSPACE_FILE)
      \<and> \<not> ex (posix_join (posix_join (posix_join (posix_join d a) b) c) BAZEL_WORKSPACE_FILE)
     \<longrightarrow> find_workspace_loop ex (posix_join (posix_join (posix_join d a) b) c) = Some d)
   \<and> (p \<noteq> [] \<and> hd p = CHR ''/'' \<and> \<not> prefix ''//'' p
      \<and> (\<forall>n. \<not> ex (posix_join ((dirname ^^ n) p) BAZEL_WORKSPACE_FILE))
     \<longrightarrow> find_workspace_loop ex p = Some ''/'')
   \<and> (\<not> prefix ''//'' q \<longrightarrow> (\<exists>r. find_workspace_loop ex q = Some r))"
proof (intro conjI impI)
  assume h: "(d = ''/'' \<or> (d \<noteq> [] \<and> last d \<noteq> CHR ''/'' \<and> ex (posix_join d BAZEL_WORKSPACE_FILE)))
      \<and> a \<noteq> [] \<and> CHR ''/'' \<notin> set a \<and> b \<noteq> [] \<and> CHR ''/'' \<notin> set b
      \<and> c \<noteq> [] \<and> CHR ''/'' \<notin> set c
      \<and> \<not> ex (posix_join (posix_join d a) BAZEL_WORKSPACE_FILE)
      \<and> \<not> ex (posix_join (posix_join (posix_join d a) b) BAZEL_WORKSPACE_FILE)
      \<and> \<not> ex (posix_join (posix_join (posix_join (posix_join d a) b) c) BAZEL_WORKSPACE_FILE)"
  let ?a = "posix_join d a"
  let ?b = "posix_join ?a b"
  let ?c = "posix_join ?b c"
  from h have d: "d = ''/'' \<or> (d \<noteq> [] \<and> last d \<noteq> CHR ''/'')"
    by blast
  from h have a: "a \<noteq> []" "CHR ''/'' \<notin> set a" and b: "b \<noteq> []" "CHR ''/'' \<notin> set b"
    and c: "c \<noteq> []" "CHR ''/'' \<notin> set c"
    by blast+
  note ja = dirname_posix_join [OF d a]
  from ja have da: "?a = ''/'' \<or> (?a \<noteq> [] \<and> last ?a \<noteq> CHR ''/'')"
    by blast
  note jb = dirname_posix_join [OF da b]
  from jb have db: "?b = ''/'' \<or> (?b \<noteq> [] \<and> last ?b \<noteq> CHR ''/'')"
    by blast
  note jc = dirname_posix_join [OF db c]
  have stop: "find_workspace_loop ex d = Some d"
    using h by (subst find_workspace_loop.simps) auto
  have "find_workspace_loop ex ?a = find_workspace_loop ex d"
    using h ja by (subst find_workspace_loop.simps) simp
  moreover have "find_workspace_loop ex ?b = find_workspace_loop ex ?a"
    using h jb by (subst find_workspace_loop.simps) simp
  moreover have "find_workspace_loop ex ?c = find_workspace_loop ex ?b"
    using h jc by (subst find_workspace_loop.simps) simp
  ultimately show "find_workspace_loop ex ?c = Some d"
    using stop by simp
next
  assume "p \<noteq> [] \<and> hd p = CHR ''/'' \<and> \<not> prefix ''//'' p
      \<and> (\<forall>n. \<not> ex (posix_join ((dirname ^^ n) p) BAZEL_WORKSPACE_FILE))"
  then show "find_workspace_loop ex p = Some ''/''"
    using find_workspace_loop_no_marker [of p ex] by blast
next
  assume "\<not> prefix ''//'' q"
  then show "\<exists>r. find_workspace_loop ex q = Some r"
    by (rule find_workspace_loop_terminates)
qed

theorem workspace_locator_witness:
  "find_workspace_directory sample_world = Some ''/home/dev/proj''
   \<and> find_workspace_directory no_marker_world = Some ''/''"
proof -
  let ?ex = "path_exists sample_world"
  let ?no = "path_exists no_marker_world"
  note t1 = workspace_locator [of "''/home/dev/proj''" ?ex "''a''" "''b''" "''c''"
      "''/home/dev/proj/a/b/c''" "''/home/dev/proj/a/b/c''", THEN conjunct1]
  note t2 = workspace_locator [of "''/home/dev/proj''" ?no "''a''" "''b''" "''c''"
      "''/home/dev/proj/a/b/c''" "''/home/dev/proj/a/b/c''", THEN conjunct2, THEN conjunct1]
  have "find_workspace_loop ?ex ''/home/dev/proj/a/b/c'' = Some ''/home/dev/proj''"
    using t1 by (simp add: posix_join_def sample_world_def BAZEL_WORKSPACE_FILE_def)
  moreover have "find_workspace_loop ?no ''/home/dev/proj/a/b/c'' = Some ''/''"
    using t2 by (simp add: no_marker_world_def)
  ultimately show ?thesis
    by (simp add: find_workspace_directory_def no_marker_world_def sample_world_def)
qed

subsection \<open>Normalising a comma-separated string\<close>

text \<open>
  C6, as stated, fails at the empty string: split on commas it is one empty entry, which
  would render as \<^verbatim>\<open>-p ""\<close>, but the empty string is a false value and leaves the
  empty fragment, on every interpreter.
\<close>

theorem empty_string_not_split_counterexample:
  \<open>map str_strip (str_split (CHR '','') []) = [[]]
   \<and> ''-p "'' @ str_join ''" -p "'' (map str_strip (str_split (CHR '','') [])) @ ''"'' = ''-p ""''
   \<and> add_ports True (VStr []) = Inr [] \<and> add_ports False (VStr []) = Inr []
   \<and> add_env_vars True (VStr []) = Inr [] \<and> add_env_vars False (VStr []) = Inr []\<close>
  by (simp add: add_ports_def add_env_vars_def str_strip_def)

text \<open>
  C6, amended. For every non-empty string, the entries are the pieces of the string between
  its commas: none of them holds a comma, joined with commas they give the string back, and
  there is one more of them than there are commas, so empty pieces are kept. Each entry is
  its piece without the white space around it, and the fragment is one \<^verbatim>\<open>-p "entry"\<close>
  (or \<^verbatim>\<open>-e "entry"\<close>) token for each entry, in order, separated by blanks. The string
  \<^verbatim>\<open>"8080:8080, 9090:9090"\<close> gives the two entries \<^verbatim>\<open>8080:8080\<close> and
  \<^verbatim>\<open>9090:9090\<close>.
\<close>

theorem comma_string_normalised:
  assumes "s \<noteq> []"
  shows \<open>add_ports alias (VStr s) =
           Inr (str_join '' '' (map (\<lambda>e. ''-p "'' @ e @ ''"'')
                  (map str_strip (str_split (CHR '','') s))))
    \<and> add_env_vars alias (VStr s) =
           Inr (str_join '' '' (map (\<lambda>e. ''-e "'' @ e @ ''"'')
                  (map str_strip (str_split (CHR '','') s))))
    \<and> str_join '','' (str_split (CHR '','') s) = s
    \<and> list_all (\<lambda>piece. CHR '','' \<notin> set piece) (str_split (CHR '','') s)
    \<and> length (str_split (CHR '','') s) = Suc (count_list s (CHR '',''))
    \<and> list_all (\<lambda>piece. \<exists>l r. piece = l @ str_strip piece @ r
                            \<and> list_all is_space l \<and> list_all is_space r
                            \<and> (str_strip piece = []
                                \<or> \<not> is_space (hd (str_strip piece))
                                  \<and> \<not> is_space (last (str_strip piece))))
        (str_split (CHR '','') s)
    \<and> map str_strip (str_split (CHR '','') ''8080:8080, 9090:9090'') =
        [''8080:8080'', ''9090:9090'']\<close>
proof -
  let ?es = "map str_strip (str_split (CHR '','') s)"
  have ne: "?es \<noteq> []"
    by (simp add: str_split_not_Nil)
  have \<open>''-p "'' @ str_join (''"'' @ '' '' @ ''-p "'') ?es @ ''"'' =
        str_join '' '' (map (\<lambda>e. ''-p "'' @ e @ ''"'') ?es)\<close>
    using ne by (rule str_join_wrap)
  then have p: \<open>add_ports alias (VStr s) = Inr (str_join '' '' (map (\<lambda>e. ''-p "'' @ e @ ''"'') ?es))\<close>
    using assms by (simp add: add_ports_def strs_of_map_VStr)
  have \<open>''-e "'' @ str_join (''"'' @ '' '' @ ''-e "'') ?es @ ''"'' =
        str_join '' '' (map (\<lambda>e. ''-e "'' @ e @ ''"'') ?es)\<close>
    using ne by (rule str_join_wrap)
  then have e: \<open>add_env_vars alias (VStr s) = Inr (str_join '' '' (map (\<lambda>e. ''-e "'' @ e @ ''"'') ?es))\<close>
    using assms by (simp add: add_env_vars_def strs_of_map_VStr)
  have t: "list_all (\<lambda>piece. \<exists>l r. piece = l @ str_strip piece @ r
                            \<and> list_all is_space l \<and> list_all is_space r
                            \<and> (str_strip piece = []
                                \<or> \<not> is_space (hd (str_strip piece))
                                  \<and> \<not> is_space (last (str_strip piece))))
        (str_split (CHR '','') s)"
  proof (rule list_all_iff [THEN iffD2], rule ballI)
    fix piece
    assume "piece \<in> set (str_split (CHR '','') s)"
    obtain l r where "piece = l @ str_strip piece @ r" "list_all is_space l" "list_all is_space r"
      using str_strip_decompose [of piece] by blast
    moreover have "str_strip piece = []
        \<or> \<not> is_space (hd (str_strip piece)) \<and> \<not> is_space (last (str_strip piece))"
      using str_strip_ends [of piece] by blast
    ultimately show "\<exists>l r. piece = l @ str_strip piece @ r
                            \<and> list_all is_space l \<and> list_all is_space r
                            \<and> (str_strip piece = []
                                \<or> \<not> is_space (hd (str_strip piece))
                                  \<and> \<not> is_space (last (str_strip piece)))"
      by blast
  qed
  have x: "map str_strip (str_split (CHR '','') ''8080:8080, 9090:9090'') =
        [''8080:8080'', ''9090:9090'']"
    by (simp add: str_strip_def is_space_def)
  from p e t x str_join_str_split [of "CHR '',''" s] str_split_no_separator [of "CHR '',''" s]
    length_str_split [of "CHR '',''" s]
  show ?thesis
    by blast
qed

theorem comma_string_normalised_witness:
  \<open>''a, ,b'' \<noteq> []
   \<and> add_ports False (VStr ''a, ,b'') = Inr ''-p "a" -p "" -p "b"''
   \<and> add_env_vars False (VStr ''a, ,b'') = Inr ''-e "a" -e "" -e "b"''
   \<and> length (str_split (CHR '','') ''a, ,b'') = 3\<close>
proof -
  have h: "''a, ,b'' \<noteq> []"
    by simp
  from comma_string_normalised [OF h, of False] show ?thesis
    by (simp add: str_strip_def is_space_def)
qed

end
